theory Spec2Isabelle
  imports Complex_Main "HOL-Library.AList"
begin

section \<open>JavaScript values used by the FreeIPA client\<close>

text \<open>
  Opaque argument and payload values (\<open>any\<close> in the source) are JSON values. An object
  (\<open>Record<string, any>\<close>) is an association list: a property assignment
  \<open>obj.k = v\<close> is \<open>AList.update k v\<close> (an existing key keeps its place, a new one is
  appended), a lookup is \<open>map_of\<close>.
\<close>

datatype json =
    JNull
  | JBool bool
  | JNum int
  | JStr string
  | JArr "json list"
  | JObj "(string \<times> json) list"

type_synonym options = "(string \<times> json) list"

text \<open>\<open>Array.prototype.join\<close> on strings and \<open>String.prototype.split\<close> with a
  one-character separator.\<close>

fun join :: "string \<Rightarrow> string list \<Rightarrow> string" where
  "join sep [] = []"
| "join sep [x] = x"
| "join sep (x # y # ys) = x @ sep @ join sep (y # ys)"

fun split :: "char \<Rightarrow> string \<Rightarrow> string list" where
  "split sep [] = [[]]"
| "split sep (c # cs) =
     (if c = sep then [] # split sep cs
      else (case split sep cs of
              [] \<Rightarrow> [[c]]
            | w # ws \<Rightarrow> (c # w) # ws))"

text \<open>Decimal rendering of a non-negative integer, as a template literal prints an
  HTTP status.\<close>

fun string_of_nat :: "nat \<Rightarrow> string" where
  "string_of_nat n =
     (if n < 10 then [char_of (48 + n)]
      else string_of_nat (n div 10) @ [char_of (48 + n mod 10)])"

declare string_of_nat.simps [simp del]

section \<open>Types of the JSON-RPC client (types.ts)\<close>

text \<open>\<open>FreeIPARequest\<close>: the \<open>params\<close> tuple is the JSON array put on the wire.\<close>

record FreeIPARequest =
  rpc_method :: string
  rpc_params :: "json list"
  rpc_id :: nat

text \<open>The \<open>error\<close> member of a response body: \<open>{code, message, name}\<close>.\<close>

record fault =
  fault_code :: int
  fault_message :: string
  fault_name :: string

text \<open>
  \<open>FreeIPAResponse\<close>: \<open>result\<close> is the outer member (absent or null on faults, which
  is why the source reads it through \<open>?.\<close>), whose own \<open>result\<close> member is the payload;
  \<open>error\<close> is absent or null on success. \<open>None\<close> stands for undefined or null. The
  members the client never reads (summary, count, truncated, id, principal, version) are
  left out.
\<close>

record result_envelope =
  inner_result :: "json option"

record FreeIPAResponse =
  result :: "result_envelope option"
  error :: "fault option"

text \<open>
  \<open>class FreeIPAError extends Error\<close>: the constructor stores the message and the code
  and sets \<open>this.name = errorName || 'FreeIPAError'\<close>, so an absent and an empty
  \<open>errorName\<close> both give the default name.
\<close>

record FreeIPAError =
  err_message :: string
  err_code :: "int option"
  err_name :: string

definition FreeIPAError_new :: "string \<Rightarrow> int option \<Rightarrow> string option \<Rightarrow> FreeIPAError" where
  "FreeIPAError_new msg code errorName =
     \<lparr> err_message = msg,
       err_code = code,
       err_name = (case errorName of
                     None \<Rightarrow> ''FreeIPAError''
                   | Some n \<Rightarrow> if n = [] then ''FreeIPAError'' else n) \<rparr>"

section \<open>The HTTP transport\<close>

text \<open>
  The axios instance is the environment. A request is what \<open>client.post\<close> is given; the
  transport answers with a response (status, the \<open>set-cookie\<close> header array when the
  response has one, the parsed body) or throws an axios error, of which the client reads
  the message and \<open>error.response?.data?.error\<close>. The parsed body \<open>response.data\<close> is
  \<open>None\<close> when it is \<open>null\<close> (the JSON text \<open>null\<close>), on which reading a member raises a
  TypeError; otherwise it is read as the declared type \<open>FreeIPAResponse\<close> (a body that is
  a string or a number has no members: it is the record without result and error).
\<close>

datatype http_body =
    FormBody "(string \<times> string) list"
  | JsonBody FreeIPARequest

record http_request =
  url :: string
  body :: http_body
  headers :: "(string \<times> string) list"

record http_response =
  status :: nat
  set_cookie :: "string list option"
  data :: "FreeIPAResponse option"

datatype http_outcome =
    Response http_response
  | Failure string "fault option"

type_synonym transport = "http_request \<Rightarrow> http_outcome"

text \<open>The transport that gives one fixed answer.\<close>

definition always :: "http_outcome \<Rightarrow> transport" where
  "always answer = (\<lambda>request. answer)"

section \<open>FreeIPAClient\<close>

text \<open>The instance fields. \<open>requestId\<close> is a JavaScript number that only ever holds
  a count of calls; it is modelled as a natural number.\<close>

record FreeIPAClient =
  server :: string
  username :: string
  password :: string
  baseUrl :: string
  authenticated :: bool
  cookies :: string
  requestId :: nat

text \<open>The constructor, on the resolved configuration values.\<close>

definition new_client :: "string \<Rightarrow> string \<Rightarrow> string \<Rightarrow> FreeIPAClient" where
  "new_client srv usr pwd =
     \<lparr> server = srv, username = usr, password = pwd,
       baseUrl = ''https://'' @ srv @ ''/ipa'',
       authenticated = False, cookies = [], requestId = 0 \<rparr>"

text \<open>
  What is thrown inside a \<open>try\<close> block of the client: a \<open>FreeIPAError\<close> raised by the
  client itself, the error of the transport, or a TypeError of the runtime with its
  message (it has no \<open>response\<close> member).
\<close>

datatype thrown =
    ThrownFreeIPA FreeIPAError
  | ThrownAxios string "fault option"
  | ThrownTypeError string

text \<open>The message of the TypeError that Node raises for \<open>result.error\<close> when \<open>result\<close>
  is \<open>null\<close>; \<open>CHR 0x27\<close> is the single quote.\<close>

definition null_body_message :: string where
  "null_body_message =
     ''Cannot read properties of null (reading '' @ [CHR 0x27] @ ''error'' @ [CHR 0x27] @ '')''"

subsection \<open>authenticate\<close>

definition cookie_header :: "string list \<Rightarrow> string" where
  "cookie_header setCookies =
     join ''; '' (map (\<lambda>cookie. case split (CHR '';'') cookie of
                                   [] \<Rightarrow> []
                                 | p # _ \<Rightarrow> p) setCookies)"

definition login_request :: "FreeIPAClient \<Rightarrow> http_request" where
  "login_request c =
     \<lparr> url = baseUrl c @ ''/session/login_password'',
       body = FormBody [(''user'', username c), (''password'', password c)],
       headers = [(''Content-Type'', ''application/x-www-form-urlencoded''),
                  (''Accept'', ''text/plain''),
                  (''Referer'', baseUrl c)] \<rparr>"

text \<open>The \<open>try\<close> block: the client after the block, and what the block returned or
  threw.\<close>

definition authenticate_try :: "transport \<Rightarrow> FreeIPAClient \<Rightarrow> (thrown + bool) \<times> FreeIPAClient" where
  "authenticate_try net c =
     (case net (login_request c) of
        Failure msg flt \<Rightarrow> (Inl (ThrownAxios msg flt), c)
      | Response response \<Rightarrow>
          if status response = 200 then
            (let c1 = (case set_cookie response of
                         None \<Rightarrow> c
                       | Some setCookies \<Rightarrow> c\<lparr>cookies := cookie_header setCookies\<rparr>)
             in (Inr True, c1\<lparr>authenticated := True\<rparr>))
          else
            (Inl (ThrownFreeIPA (FreeIPAError_new
                    (''Authentication failed: HTTP '' @ string_of_nat (status response))
                    None None)), c))"

definition authenticate_catch :: "thrown \<Rightarrow> FreeIPAError" where
  "authenticate_catch t =
     (case t of
        ThrownFreeIPA e \<Rightarrow> e
      | ThrownAxios msg flt \<Rightarrow>
          FreeIPAError_new (''Network error during authentication: '' @ msg) None None
      | ThrownTypeError msg \<Rightarrow>
          FreeIPAError_new (''Network error during authentication: '' @ msg) None None)"

text \<open>\<open>authenticate\<close>: the outcome, the client afterwards, the requests sent.\<close>

definition authenticate ::
  "transport \<Rightarrow> FreeIPAClient \<Rightarrow> (FreeIPAError + bool) \<times> FreeIPAClient \<times> http_request list" where
  "authenticate net c =
     (case authenticate_try net c of
        (Inr ok, c1) \<Rightarrow> (Inr ok, c1, [login_request c])
      | (Inl t, c1) \<Rightarrow> (Inl (authenticate_catch t), c1, [login_request c]))"

subsection \<open>apiCall\<close>

definition api_request :: "FreeIPAClient \<Rightarrow> FreeIPARequest \<Rightarrow> http_request" where
  "api_request c payload =
     \<lparr> url = baseUrl c @ ''/json'',
       body = JsonBody payload,
       headers = [(''Content-Type'', ''application/json''),
                  (''Accept'', ''application/json''),
                  (''Referer'', baseUrl c),
                  (''Cookie'', cookies c)] \<rparr>"

text \<open>The \<open>try\<close> block of \<open>apiCall\<close>, given the transport's answer; \<open>None\<close> as payload
  is undefined.\<close>

definition apiCall_try :: "http_outcome \<Rightarrow> thrown + json option" where
  "apiCall_try answer =
     (case answer of
        Failure msg flt \<Rightarrow> Inl (ThrownAxios msg flt)
      | Response response \<Rightarrow>
          if status response \<noteq> 200 then
            Inl (ThrownFreeIPA (FreeIPAError_new
                   (''API call failed: HTTP '' @ string_of_nat (status response)) None None))
          else
            (case data response of
               None \<Rightarrow> Inl (ThrownTypeError null_body_message)
             | Some result_body \<Rightarrow>
                 (case error result_body of
                    Some e \<Rightarrow>
                      Inl (ThrownFreeIPA (FreeIPAError_new (fault_message e)
                             (Some (fault_code e)) (Some (fault_name e))))
                  | None \<Rightarrow>
                      Inr (case result result_body of
                             None \<Rightarrow> None
                           | Some env \<Rightarrow> inner_result env))))"

definition apiCall_catch :: "thrown \<Rightarrow> FreeIPAError" where
  "apiCall_catch t =
     (case t of
        ThrownFreeIPA e \<Rightarrow> e
      | ThrownAxios msg (Some apiError) \<Rightarrow>
          FreeIPAError_new (fault_message apiError)
            (Some (fault_code apiError)) (Some (fault_name apiError))
      | ThrownAxios msg None \<Rightarrow>
          FreeIPAError_new (''Network error during API call: '' @ msg) None None
      | ThrownTypeError msg \<Rightarrow>
          FreeIPAError_new (''Network error during API call: '' @ msg) None None)"

text \<open>\<open>apiCall\<close>: the outcome, the client afterwards, the requests sent.\<close>

definition apiCall ::
  "transport \<Rightarrow> FreeIPAClient \<Rightarrow> string \<Rightarrow> json list \<Rightarrow> options
     \<Rightarrow> (FreeIPAError + json option) \<times> FreeIPAClient \<times> http_request list" where
  "apiCall net c method params opts =
     (if \<not> authenticated c then
        (Inl (FreeIPAError_new ''Not authenticated. Call authenticate() first.'' None None),
         c, [])
      else
        (let apiParams = (if length params > 0
                          then [JArr params, JObj opts]
                          else [JArr [], JObj opts]);
             c1 = c\<lparr>requestId := requestId c + 1\<rparr>;
             payload = \<lparr> rpc_method = method, rpc_params = apiParams,
                         rpc_id = requestId c1 \<rparr>;
             request = api_request c1 payload
         in (case apiCall_try (net request) of
               Inr payload_result \<Rightarrow> (Inr payload_result, c1, [request])
             | Inl t \<Rightarrow> (Inl (apiCall_catch t), c1, [request]))))"

subsection \<open>Typed methods\<close>

definition groupAddMember ::
  "transport \<Rightarrow> FreeIPAClient \<Rightarrow> string \<Rightarrow> string list option \<Rightarrow> string list option
     \<Rightarrow> options \<Rightarrow> (FreeIPAError + json option) \<times> FreeIPAClient \<times> http_request list" where
  "groupAddMember net c cn users groups opts =
     (let params0 = opts;
          params1 = (case users of
                       None \<Rightarrow> params0
                     | Some us \<Rightarrow> AList.update ''user'' (JArr (map JStr us)) params0);
          params2 = (case groups of
                       None \<Rightarrow> params1
                     | Some gs \<Rightarrow> AList.update ''group'' (JArr (map JStr gs)) params1)
      in apiCall net c ''group_add_member'' [JStr cn] params2)"

subsection \<open>The lifetime of one client instance\<close>

text \<open>
  One instance serves a sequence of \<open>authenticate\<close> and \<open>apiCall\<close> invocations, each
  answered by the transport in some way. The request id is taken before the first
  \<open>await\<close> of \<open>apiCall\<close>, so overlapping calls take their ids in the order they start:
  the sequence is that order.
\<close>

datatype client_op =
    Authenticate http_outcome
  | ApiCall http_outcome string "json list" options

fun step :: "FreeIPAClient \<Rightarrow> client_op \<Rightarrow> FreeIPAClient \<times> http_request list" where
  "step c (Authenticate answer) = snd (authenticate (always answer) c)"
| "step c (ApiCall answer method params opts) =
     snd (apiCall (always answer) c method params opts)"

fun run :: "FreeIPAClient \<Rightarrow> client_op list \<Rightarrow> FreeIPAClient \<times> http_request list" where
  "run c [] = (c, [])"
| "run c (operation # rest) =
     (case step c operation of
        (c1, sent1) \<Rightarrow> (case run c1 rest of (c2, sent2) \<Rightarrow> (c2, sent1 @ sent2)))"

text \<open>The request ids of the JSON-RPC envelopes among the requests sent, in order.\<close>

fun sent_ids :: "http_request list \<Rightarrow> nat list" where
  "sent_ids [] = []"
| "sent_ids (r # rs) =
     (case body r of
        JsonBody payload \<Rightarrow> rpc_id payload # sent_ids rs
      | FormBody _ \<Rightarrow> sent_ids rs)"

text \<open>An \<open>authenticate\<close> invocation that succeeds: the transport answers HTTP 200.\<close>

fun successful_authenticate :: "client_op \<Rightarrow> bool" where
  "successful_authenticate (Authenticate (Response response)) = (status response = 200)"
| "successful_authenticate _ = False"

section \<open>SSHManager\<close>

text \<open>\<open>SSHCommandResult\<close> and \<open>SSHError\<close> (types.ts).\<close>

record SSHCommandResult =
  stdout :: string
  stderr :: string
  exitCode :: int

record SSHError =
  ssh_message :: string
  ssh_host :: "string option"
  ssh_exitCode :: "int option"

text \<open>A settled promise.\<close>

datatype 'a settled =
    Fulfilled 'a
  | Rejected SSHError

text \<open>
  \<open>String.prototype.trim\<close> removes white space and line terminators at both ends. A
  \<open>char\<close> is a code unit below 256, where these are tab, line feed, vertical tab, form
  feed, carriage return, space and no-break space.
\<close>

definition is_space :: "char \<Rightarrow> bool" where
  "is_space c = (of_char c \<in> {9, 10, 11, 12, 13, 32, 160 :: nat})"

definition trim :: "string \<Rightarrow> string" where
  "trim s = rev (dropWhile is_space (rev (dropWhile is_space s)))"

text \<open>The instance fields of \<open>SSHManager\<close>.\<close>

record SSHManager =
  ssh_username :: string
  ssh_password :: string
  defaultPort :: nat
  defaultTimeout :: nat
  sssdDomain :: string

text \<open>
  A connection of the ssh2 client: the configuration given to \<open>conn.connect\<close> and the
  command given to \<open>conn.exec\<close> once the connection is ready.
\<close>

record connection =
  conn_host :: string
  conn_port :: nat
  conn_username :: string
  conn_password :: string
  conn_readyTimeout :: nat
  conn_command :: string

text \<open>
  What the ssh2 client reports for a connection that settles: an \<open>error\<close> event on the
  connection, an error given to the \<open>exec\<close> callback, or the \<open>close\<close> event of the
  stream with the exit code, after the chunks of standard output and standard error.
  The environment answers the \<open>i\<close>-th connection an operation opens with these events
  and with the time at which the promise settles.
\<close>

datatype channel_events =
    ConnectionError string
  | ExecError string
  | StreamClosed "string list" "string list" int

record ssh_reply =
  settle_at :: nat
  events :: channel_events

type_synonym ssh_world = "nat \<Rightarrow> connection \<Rightarrow> ssh_reply"

subsection \<open>executeCommand\<close>

definition open_connection :: "SSHManager \<Rightarrow> string \<Rightarrow> string \<Rightarrow> nat option \<Rightarrow> connection" where
  "open_connection mgr host command port =
     \<lparr> conn_host = host,
       conn_port = (case port of
                      None \<Rightarrow> defaultPort mgr
                    | Some p \<Rightarrow> if p = 0 then defaultPort mgr else p),
       conn_username = ssh_username mgr,
       conn_password = ssh_password mgr,
       conn_readyTimeout = defaultTimeout mgr,
       conn_command = command \<rparr>"

text \<open>\<open>executeCommand\<close>, as the \<open>i\<close>-th connection of the running operation: how the
  promise settles, and the connections opened.\<close>

definition executeCommand ::
  "SSHManager \<Rightarrow> ssh_world \<Rightarrow> nat \<Rightarrow> string \<Rightarrow> string \<Rightarrow> nat option
     \<Rightarrow> SSHCommandResult settled \<times> connection list" where
  "executeCommand mgr w i host command port =
     (let conn = open_connection mgr host command port
      in (case events (w i conn) of
            ConnectionError msg \<Rightarrow>
              Rejected \<lparr> ssh_message = ''SSH connection failed: '' @ msg,
                         ssh_host = Some host, ssh_exitCode = None \<rparr>
          | ExecError msg \<Rightarrow>
              Rejected \<lparr> ssh_message = ''Failed to execute command: '' @ msg,
                         ssh_host = Some host, ssh_exitCode = None \<rparr>
          | StreamClosed outs errs code \<Rightarrow>
              Fulfilled \<lparr> stdout = trim (concat outs),
                          stderr = trim (concat errs),
                          exitCode = code \<rparr>,
          [conn]))"

subsection \<open>executeOnMultipleHosts\<close>

type_synonym results = "string \<rightharpoonup> SSHCommandResult"

text \<open>
  The async arrow function mapped over the hosts: once its \<open>executeCommand\<close> has
  settled it writes one entry into the shared \<open>results\<close> map, in the \<open>try\<close> block or in
  the \<open>catch\<close> block, and fulfils.
\<close>

definition host_task ::
  "SSHManager \<Rightarrow> ssh_world \<Rightarrow> string \<Rightarrow> nat \<times> string \<Rightarrow> (results \<Rightarrow> results) settled" where
  "host_task mgr w command call =
     (case call of (i, host) \<Rightarrow>
        (case fst (executeCommand mgr w i host command None) of
           Fulfilled r \<Rightarrow> Fulfilled (\<lambda>results. results(host \<mapsto> r))
         | Rejected e \<Rightarrow>
             Fulfilled (\<lambda>results. results(host \<mapsto>
               \<lparr> stdout = [], stderr = ssh_message e, exitCode = - 1 \<rparr>))))"

text \<open>The entry that the task of a call writes for its host.\<close>

definition host_entry :: "SSHManager \<Rightarrow> ssh_world \<Rightarrow> string \<Rightarrow> nat \<times> string \<Rightarrow> SSHCommandResult" where
  "host_entry mgr w command call =
     (case fst (executeCommand mgr w (fst call) (snd call) command None) of
        Fulfilled r \<Rightarrow> r
      | Rejected e \<Rightarrow> \<lparr> stdout = [], stderr = ssh_message e, exitCode = - 1 \<rparr>)"

text \<open>
  \<open>await Promise.all(promises)\<close> over tasks listed in the order they settle: each
  fulfilled task has had its effect on the shared state; the first rejection rejects the
  whole.
\<close>

fun promise_all :: "('s \<Rightarrow> 's) settled list \<Rightarrow> 's \<Rightarrow> unit settled \<times> 's" where
  "promise_all [] s = (Fulfilled (), s)"
| "promise_all (Fulfilled f # ts) s = promise_all ts (f s)"
| "promise_all (Rejected e # ts) s = (Rejected e, s)"

definition settle_order :: "SSHManager \<Rightarrow> ssh_world \<Rightarrow> string \<Rightarrow> (nat \<times> string) list \<Rightarrow> (nat \<times> string) list" where
  "settle_order mgr w command calls =
     sort_key (\<lambda>call. settle_at (w (fst call) (open_connection mgr (snd call) command None))) calls"

definition executeOnMultipleHosts ::
  "SSHManager \<Rightarrow> ssh_world \<Rightarrow> string list \<Rightarrow> string
     \<Rightarrow> results settled \<times> connection list" where
  "executeOnMultipleHosts mgr w hosts command =
     (let calls = enumerate 0 hosts;
          opened = concat (map (\<lambda>call. snd (executeCommand mgr w (fst call) (snd call) command None)) calls);
          promises = map (host_task mgr w command) (settle_order mgr w command calls)
      in (case promise_all promises Map.empty of
            (Fulfilled u, results) \<Rightarrow> (Fulfilled results, opened)
          | (Rejected e, results) \<Rightarrow> (Rejected e, opened)))"

subsection \<open>updateSSSDTimeout and updateSSSDTimeoutMultiple\<close>

text \<open>
  A JavaScript number: a finite value (every double is a rational), NaN or an infinity.
  \<open>Number.isInteger\<close> holds of the finite values without fractional part.
\<close>

datatype number =
    Num rat
  | NaN
  | PosInfinity
  | NegInfinity

fun Number_isInteger :: "number \<Rightarrow> bool" where
  "Number_isInteger (Num r) = (of_int \<lfloor>r\<rfloor> = r)"
| "Number_isInteger x = False"

text \<open>The comparison \<open>x < 0\<close>.\<close>

fun less_than_zero :: "number \<Rightarrow> bool" where
  "less_than_zero (Num r) = (r < 0)"
| "less_than_zero NaN = False"
| "less_than_zero PosInfinity = False"
| "less_than_zero NegInfinity = True"

text \<open>\<open>this.sssdDomain.replace(/\./g, '\\.')\<close>: a backslash before every dot.\<close>

definition escape_dots :: "string \<Rightarrow> string" where
  "escape_dots domain =
     concat (map (\<lambda>c. if c = CHR ''.'' then [CHR 0x5C, CHR ''.''] else [c]) domain)"

text \<open>
  The command text of the timeout update. \<open>to_text\<close> is the conversion of a number to a
  string that a template literal applies (the runtime's \<open>Number::toString\<close>);
  \<open>CHR 0x27\<close> is the single quote and \<open>CHR 0x5C\<close> the backslash.
\<close>

definition timeout_commands :: "(number \<Rightarrow> string) \<Rightarrow> string \<Rightarrow> number \<Rightarrow> number \<Rightarrow> string" where
  "timeout_commands to_text domain entryCacheTimeout sudoTimeout =
     (let escapedDomain = escape_dots domain;
          marker = [CHR 0x27] @ ''/'' @ [CHR 0x5C] @ ''[domain'' @ [CHR 0x5C] @ ''/''
                     @ escapedDomain @ [CHR 0x5C] @ '']/a ''
      in join '' && ''
           [''sudo sed -i '' @ [CHR 0x27] @ ''/^entry_cache_timeout/d'' @ [CHR 0x27]
              @ '' /etc/sssd/sssd.conf'',
            ''sudo sed -i '' @ [CHR 0x27] @ ''/^entry_cache_sudo_timeout/d'' @ [CHR 0x27]
              @ '' /etc/sssd/sssd.conf'',
            ''sudo sed -i '' @ marker @ ''entry_cache_timeout = ''
              @ to_text entryCacheTimeout @ [CHR 0x27] @ '' /etc/sssd/sssd.conf'',
            ''sudo sed -i '' @ marker @ ''entry_cache_sudo_timeout = ''
              @ to_text sudoTimeout @ [CHR 0x27] @ '' /etc/sssd/sssd.conf'',
            ''sudo systemctl restart sssd''])"

text \<open>The two checks that open both entry points; an omitted argument is 300.\<close>

definition validate_timeouts :: "number option \<Rightarrow> number option \<Rightarrow> SSHError + number \<times> number" where
  "validate_timeouts entryCacheTimeout0 sudoTimeout0 =
     (let entryCacheTimeout = (case entryCacheTimeout0 of None \<Rightarrow> Num 300 | Some x \<Rightarrow> x);
          sudoTimeout = (case sudoTimeout0 of None \<Rightarrow> Num 300 | Some x \<Rightarrow> x)
      in if \<not> Number_isInteger entryCacheTimeout \<or> less_than_zero entryCacheTimeout then
           Inl \<lparr> ssh_message = ''entryCacheTimeout must be a non-negative integer'',
                 ssh_host = None, ssh_exitCode = None \<rparr>
         else if \<not> Number_isInteger sudoTimeout \<or> less_than_zero sudoTimeout then
           Inl \<lparr> ssh_message = ''sudoTimeout must be a non-negative integer'',
                 ssh_host = None, ssh_exitCode = None \<rparr>
         else Inr (entryCacheTimeout, sudoTimeout))"

definition updateSSSDTimeout ::
  "(number \<Rightarrow> string) \<Rightarrow> SSHManager \<Rightarrow> ssh_world \<Rightarrow> string \<Rightarrow> number option \<Rightarrow> number option
     \<Rightarrow> SSHCommandResult settled \<times> connection list" where
  "updateSSSDTimeout to_text mgr w host entryCacheTimeout0 sudoTimeout0 =
     (case validate_timeouts entryCacheTimeout0 sudoTimeout0 of
        Inl e \<Rightarrow> (Rejected e, [])
      | Inr (entryCacheTimeout, sudoTimeout) \<Rightarrow>
          executeCommand mgr w 0 host
            (timeout_commands to_text (sssdDomain mgr) entryCacheTimeout sudoTimeout) None)"

definition updateSSSDTimeoutMultiple ::
  "(number \<Rightarrow> string) \<Rightarrow> SSHManager \<Rightarrow> ssh_world \<Rightarrow> string list \<Rightarrow> number option
     \<Rightarrow> number option \<Rightarrow> results settled \<times> connection list" where
  "updateSSSDTimeoutMultiple to_text mgr w hosts entryCacheTimeout0 sudoTimeout0 =
     (case validate_timeouts entryCacheTimeout0 sudoTimeout0 of
        Inl e \<Rightarrow> (Rejected e, [])
      | Inr (entryCacheTimeout, sudoTimeout) \<Rightarrow>
          executeOnMultipleHosts mgr w hosts
            (timeout_commands to_text (sssdDomain mgr) entryCacheTimeout sudoTimeout))"

subsection \<open>validateShellSafe, invalidateUser and invalidateGroup\<close>

text \<open>The character class \<open>[a-zA-Z0-9._@-]\<close>, by code-unit ranges as the regular
  expression engine reads it.\<close>

definition in_class :: "char \<Rightarrow> bool" where
  "in_class c =
     (let n = (of_char c :: nat)
      in (97 \<le> n \<and> n \<le> 122) \<or> (65 \<le> n \<and> n \<le> 90) \<or> (48 \<le> n \<and> n \<le> 57)
         \<or> c = CHR ''.'' \<or> c = CHR ''_'' \<or> c = CHR ''@'' \<or> c = CHR ''-'')"

text \<open>\<open>/^[a-zA-Z0-9._@-]+$/.test(value)\<close>: one or more characters of the class, from
  the start of the string to its end.\<close>

definition regex_test :: "string \<Rightarrow> bool" where
  "regex_test v = (v \<noteq> [] \<and> list_all in_class v)"

definition validateShellSafe :: "string \<Rightarrow> string \<Rightarrow> SSHError + string" where
  "validateShellSafe v label =
     (if v = [] then
        Inl \<lparr> ssh_message = label @ '' is required'', ssh_host = None, ssh_exitCode = None \<rparr>
      else if \<not> regex_test v then
        Inl \<lparr> ssh_message = label @ '' contains unsafe characters: '' @ v,
              ssh_host = None, ssh_exitCode = None \<rparr>
      else Inr v)"

definition invalidateUser ::
  "SSHManager \<Rightarrow> ssh_world \<Rightarrow> string \<Rightarrow> string \<Rightarrow> SSHCommandResult settled \<times> connection list" where
  "invalidateUser mgr w host uname =
     (case validateShellSafe uname ''username'' of
        Inl e \<Rightarrow> (Rejected e, [])
      | Inr checked \<Rightarrow> executeCommand mgr w 0 host (''sudo sss_cache -u '' @ uname) None)"

definition invalidateGroup ::
  "SSHManager \<Rightarrow> ssh_world \<Rightarrow> string \<Rightarrow> string \<Rightarrow> SSHCommandResult settled \<times> connection list" where
  "invalidateGroup mgr w host groupname =
     (case validateShellSafe groupname ''groupname'' of
        Inl e \<Rightarrow> (Rejected e, [])
      | Inr checked \<Rightarrow> executeCommand mgr w 0 host (''sudo sss_cache -g '' @ groupname) None)"

text \<open>The identifier alphabet in words: letters, digits, dot, hyphen, underscore and
  at-sign.\<close>

definition identifier_chars :: "char set" where
  "identifier_chars =
     set ''abcdefghijklmnopqrstuvwxyz'' \<union> set ''ABCDEFGHIJKLMNOPQRSTUVWXYZ''
       \<union> set ''0123456789'' \<union> {CHR ''.'', CHR ''-'', CHR ''_'', CHR ''@''}"

section \<open>Properties of the JSON-RPC client\<close>

lemmas client_defs =
  authenticate_def authenticate_try_def authenticate_catch_def always_def
  apiCall_def apiCall_try_def apiCall_catch_def api_request_def login_request_def
  new_client_def FreeIPAError_new_def groupAddMember_def Let_def

subsection \<open>The shape of the wire parameters\<close>

text \<open>
  Claim C2. Every request that \<open>apiCall\<close> sends carries a JSON-RPC envelope whose
  \<open>params\<close> array has exactly two elements: the positional arguments and the named
  options when there are positional arguments, the empty array and the named options
  when there are none. An authenticated client sends exactly one request per call, so
  the statement is about a request that exists.
\<close>

theorem apiCall_params_arity:
  "(authenticated c \<longrightarrow> length (snd (snd (apiCall net c method params opts))) = 1) \<and>
   (\<forall>request\<in>set (snd (snd (apiCall net c method params opts))).
      \<exists>payload. body request = JsonBody payload \<and> length (rpc_params payload) = 2 \<and>
        rpc_params payload =
          (if params \<noteq> [] then [JArr params, JObj opts] else [JArr [], JObj opts]))"
  by (auto simp: apiCall_def Let_def api_request_def split: sum.splits)

theorem apiCall_params_arity_witness:
  "map body (snd (snd (apiCall (always (Failure ''timeout'' None))
      ((new_client ''ipa.example.com'' ''admin'' ''secret'')\<lparr>authenticated := True\<rparr>)
      ''ping'' [] []))) =
     [JsonBody \<lparr>rpc_method = ''ping'', rpc_params = [JArr [], JObj []], rpc_id = 1\<rparr>] \<and>
   map body (snd (snd (apiCall (always (Failure ''timeout'' None))
      ((new_client ''ipa.example.com'' ''admin'' ''secret'')\<lparr>authenticated := True\<rparr>)
      ''user_show'' [JStr ''alice''] [(''all'', JBool True)]))) =
     [JsonBody \<lparr>rpc_method = ''user_show'',
                rpc_params = [JArr [JStr ''alice''], JObj [(''all'', JBool True)]],
                rpc_id = 1\<rparr>]"
  using apiCall_params_arity
    [of "(new_client ''ipa.example.com'' ''admin'' ''secret'')\<lparr>authenticated := True\<rparr>"
        "always (Failure ''timeout'' None)" "''ping''" "[]" "[]"]
    apiCall_params_arity
    [of "(new_client ''ipa.example.com'' ''admin'' ''secret'')\<lparr>authenticated := True\<rparr>"
        "always (Failure ''timeout'' None)" "''user_show''" "[JStr ''alice'']"
        "[(''all'', JBool True)]"]
  by (simp add: client_defs)

subsection \<open>The session cookie\<close>

lemma first_piece_of_split:
  "(case split sep s of [] \<Rightarrow> [] | p # ps \<Rightarrow> p) = takeWhile (\<lambda>ch. ch \<noteq> sep) s"
  by (induction s) (auto split: list.splits)

lemma cookie_header_prefixes:
  "cookie_header hs = join ''; '' (map (takeWhile (\<lambda>ch. ch \<noteq> CHR '';'')) hs)"
  by (simp add: cookie_header_def first_piece_of_split)

text \<open>
  Claim C3, as amended. A call of \<open>authenticate\<close> that the server answers with HTTP 200
  succeeds and sets the authenticated flag. When the response carries a
  \<open>set-cookie\<close> header array, the stored cookie string becomes the text before the
  first semicolon of each header, joined by a semicolon and a space, whatever was stored
  before; when the response carries none, the stored cookie string stays as it was (the
  assignment is guarded by \<open>if (setCookies)\<close>).
\<close>

theorem authenticate_cookie_overwrite:
  assumes "status response = 200"
  shows "authenticate (always (Response response)) c =
           (Inr True,
            c\<lparr>cookies := (case set_cookie response of
                            None \<Rightarrow> cookies c
                          | Some hs \<Rightarrow>
                              join ''; '' (map (takeWhile (\<lambda>ch. ch \<noteq> CHR '';'')) hs)),
              authenticated := True\<rparr>,
            [login_request c])"
  using assms
  by (simp add: authenticate_def authenticate_try_def always_def cookie_header_prefixes
           split: option.splits)

theorem authenticate_cookie_overwrite_witness:
  "cookies (fst (snd (authenticate
      (always (Response \<lparr>status = 200, set_cookie = Some [''a=1; Path=/'', ''b=2; HttpOnly''],
                         data = Some \<lparr>result = None, error = None\<rparr>\<rparr>))
      ((new_client ''ipa.example.com'' ''admin'' ''secret'')
         \<lparr>authenticated := True, cookies := ''old=0''\<rparr>)))) = ''a=1; b=2''"
  using authenticate_cookie_overwrite
    [of "\<lparr>status = 200, set_cookie = Some [''a=1; Path=/'', ''b=2; HttpOnly''],
          data = Some \<lparr>result = None, error = None\<rparr>\<rparr>"
        "(new_client ''ipa.example.com'' ''admin'' ''secret'')
           \<lparr>authenticated := True, cookies := ''old=0''\<rparr>"]
  by simp

text \<open>
  The claim as first stated fails on a re-authentication that is answered with HTTP 200
  and no \<open>set-cookie\<close> header: the cookie stored before, \<open>a=1\<close>, is still stored
  afterwards, while the join of the prefixes of no header is the empty string.
\<close>

theorem authenticate_cookie_kept_counterexample:
  "cookies (fst (snd (authenticate
      (always (Response \<lparr>status = 200, set_cookie = None,
                         data = Some \<lparr>result = None, error = None\<rparr>\<rparr>))
      ((new_client ''ipa.example.com'' ''admin'' ''secret'')
         \<lparr>authenticated := True, cookies := ''a=1''\<rparr>)))) = ''a=1'' \<and>
   cookie_header [] = [] \<and> ''a=1'' \<noteq> cookie_header []"
  by (simp add: authenticate_def authenticate_try_def always_def cookie_header_def
                new_client_def)

subsection \<open>Calls before authentication\<close>

lemma step_keeps_unauthenticated:
  "\<not> authenticated c \<Longrightarrow> \<not> successful_authenticate operation
     \<Longrightarrow> \<not> authenticated (fst (step c operation))"
  by (cases operation rule: successful_authenticate.cases)
     (auto simp: authenticate_def authenticate_try_def apiCall_def always_def
           split: http_outcome.splits sum.splits prod.splits)

lemma run_keeps_unauthenticated:
  "\<not> authenticated c \<Longrightarrow> \<forall>operation\<in>set history. \<not> successful_authenticate operation
     \<Longrightarrow> \<not> authenticated (fst (run c history))"
proof (induction history arbitrary: c)
  case Nil
  then show ?case by simp
next
  case (Cons operation rest)
  have "\<not> authenticated (fst (step c operation))"
    using Cons.prems by (simp add: step_keeps_unauthenticated)
  then have "\<not> authenticated (fst (run (fst (step c operation)) rest))"
    using Cons.IH Cons.prems by simp
  then show ?case by (auto split: prod.splits)
qed

text \<open>
  Claim C4. Take a new client and any history of invocations in which no
  \<open>authenticate\<close> has succeeded. Then \<open>apiCall\<close>, for every method, every positional
  arguments, every named options and every transport, fails with the
  \<open>FreeIPAError\<close> whose message is "Not authenticated. Call authenticate() first.",
  leaves the client as it is and sends no request.
\<close>

theorem apiCall_before_authenticate:
  assumes "\<forall>operation\<in>set history. \<not> successful_authenticate operation"
  shows "apiCall net (fst (run (new_client srv usr pwd) history)) method params opts =
           (Inl (FreeIPAError_new ''Not authenticated. Call authenticate() first.'' None None),
            fst (run (new_client srv usr pwd) history), [])"
proof -
  have "\<not> authenticated (new_client srv usr pwd)" by (simp add: new_client_def)
  then have "\<not> authenticated (fst (run (new_client srv usr pwd) history))"
    using assms by (rule run_keeps_unauthenticated)
  then show ?thesis by (simp add: apiCall_def)
qed

theorem apiCall_before_authenticate_witness:
  "apiCall (always (Failure ''timeout'' None))
     (fst (run (new_client ''ipa.example.com'' ''admin'' ''secret'')
        [Authenticate (Failure ''connect ECONNREFUSED'' None),
         ApiCall (Failure ''timeout'' None) ''ping'' [] []]))
     ''user_find'' [JStr ''alice''] [] =
   (Inl \<lparr>err_message = ''Not authenticated. Call authenticate() first.'',
          err_code = None, err_name = ''FreeIPAError''\<rparr>,
    new_client ''ipa.example.com'' ''admin'' ''secret'', [])"
  using apiCall_before_authenticate
    [of "[Authenticate (Failure ''connect ECONNREFUSED'' None),
          ApiCall (Failure ''timeout'' None) ''ping'' [] []]"
        "always (Failure ''timeout'' None)" "''ipa.example.com''" "''admin''" "''secret''"
        "''user_find''" "[JStr ''alice'']" "[]"]
  by (simp add: client_defs)

subsection \<open>Faults and payloads\<close>




subsection \<open>Request ids\<close>

lemma sent_ids_append: "sent_ids (xs @ ys) = sent_ids xs @ sent_ids ys"
  by (induction xs) (auto split: http_body.splits)

lemma step_ids:
  "sent_ids (snd (step c operation)) =
     [Suc (requestId c) ..< Suc (requestId (fst (step c operation)))]
   \<and> requestId c \<le> requestId (fst (step c operation))"
  by (cases operation)
     (auto simp: authenticate_def authenticate_try_def apiCall_def Let_def always_def
                 api_request_def login_request_def
           split: http_outcome.splits sum.splits prod.splits if_splits option.splits)

lemma run_ids:
  "sent_ids (snd (run c history)) =
     [Suc (requestId c) ..< Suc (requestId (fst (run c history)))]
   \<and> requestId c \<le> requestId (fst (run c history))"
proof (induction history arbitrary: c)
  case Nil
  show ?case by simp
next
  case (Cons operation rest)
  obtain c1 sent1 where s1: "step c operation = (c1, sent1)" by (cases "step c operation")
  obtain c2 sent2 where s2: "run c1 rest = (c2, sent2)" by (cases "run c1 rest")
  have ids1: "sent_ids sent1 = [Suc (requestId c) ..< Suc (requestId c1)]
                \<and> requestId c \<le> requestId c1"
    using step_ids [of c operation] s1 by simp
  have ids2: "sent_ids sent2 = [Suc (requestId c1) ..< Suc (requestId c2)]
                \<and> requestId c1 \<le> requestId c2"
    using Cons.IH [of c1] s2 by simp
  have "[Suc (requestId c) ..< Suc (requestId c1)] @ [Suc (requestId c1) ..< Suc (requestId c2)]
          = [Suc (requestId c) ..< Suc (requestId c2)]"
    using ids1 ids2 by (metis Suc_le_mono upt_add_eq_append le_Suc_ex)
  then show ?case using s1 s2 ids1 ids2 by (simp add: sent_ids_append)
qed

text \<open>
  Claim C6. Over any lifetime of one client instance (a new client followed by any
  sequence of \<open>authenticate\<close> and \<open>apiCall\<close> invocations, however the transport answers
  them), the request ids of the envelopes sent are strictly increasing, none of them is
  0, and the first one is 1. The counter is a JavaScript number that is only ever
  incremented by one from zero; the model counts in the natural numbers, which is what
  the number does below \<open>2^53\<close> calls.
\<close>

theorem request_ids_strictly_increasing:
  "sorted_wrt (<) (sent_ids (snd (run (new_client srv usr pwd) history))) \<and>
   0 \<notin> set (sent_ids (snd (run (new_client srv usr pwd) history))) \<and>
   (sent_ids (snd (run (new_client srv usr pwd) history)) \<noteq> [] \<longrightarrow>
      hd (sent_ids (snd (run (new_client srv usr pwd) history))) = 1)"
proof -
  let ?c = "new_client srv usr pwd"
  have z: "requestId ?c = 0" by (simp add: new_client_def)
  have ids: "sent_ids (snd (run ?c history)) = [Suc 0 ..< Suc (requestId (fst (run ?c history)))]"
    using run_ids [of ?c history] z by simp
  show ?thesis unfolding ids by (auto simp: upt_rec [of "Suc 0"] simp del: upt_Suc)
qed

theorem request_ids_strictly_increasing_witness:
  "sent_ids (snd (run (new_client ''ipa.example.com'' ''admin'' ''secret'')
      [Authenticate (Response \<lparr>status = 200, set_cookie = Some [''ipa_session=abc; Path=/ipa''],
                                data = Some \<lparr>result = None, error = None\<rparr>\<rparr>),
       ApiCall (Failure ''timeout'' None) ''ping'' [] [],
       ApiCall (Response \<lparr>status = 200, set_cookie = None,
                           data = Some \<lparr>result = Some \<lparr>inner_result = Some JNull\<rparr>,
                                   error = None\<rparr>\<rparr>)
               ''user_show'' [JStr ''alice''] []])) = [1, 2] \<and>
   sorted_wrt (<) (sent_ids (snd (run (new_client ''ipa.example.com'' ''admin'' ''secret'')
      [Authenticate (Response \<lparr>status = 200, set_cookie = Some [''ipa_session=abc; Path=/ipa''],
                                data = Some \<lparr>result = None, error = None\<rparr>\<rparr>),
       ApiCall (Failure ''timeout'' None) ''ping'' [] [],
       ApiCall (Response \<lparr>status = 200, set_cookie = None,
                           data = Some \<lparr>result = Some \<lparr>inner_result = Some JNull\<rparr>,
                                   error = None\<rparr>\<rparr>)
               ''user_show'' [JStr ''alice''] []])))"
  using request_ids_strictly_increasing
    [of "''ipa.example.com''" "''admin''" "''secret''"
      "[Authenticate (Response \<lparr>status = 200, set_cookie = Some [''ipa_session=abc; Path=/ipa''],
                                data = Some \<lparr>result = None, error = None\<rparr>\<rparr>),
       ApiCall (Failure ''timeout'' None) ''ping'' [] [],
       ApiCall (Response \<lparr>status = 200, set_cookie = None,
                           data = Some \<lparr>result = Some \<lparr>inner_result = Some JNull\<rparr>,
                                   error = None\<rparr>\<rparr>)
               ''user_show'' [JStr ''alice''] []]"]
  by (simp add: client_defs)

subsection \<open>Named options of groupAddMember\<close>

text \<open>
  Claim C9, as amended. When an authenticated client calls \<open>groupAddMember\<close> with a
  users list and without a groups argument, the one request sent carries the group name
  as its only positional argument and a named-option mapping in which \<open>user\<close> is bound
  to the supplied list. The method adds no \<open>group\<close> key: the mapping has a \<open>group\<close>
  key exactly when the caller's extra options have one, with the caller's value; with
  the default empty options the mapping is exactly the \<open>user\<close> entry.
\<close>

theorem groupAddMember_named_options:
  assumes "authenticated c"
  shows "\<exists>p. map body (snd (snd (groupAddMember net c cn (Some us) None opts))) =
               [JsonBody \<lparr> rpc_method = ''group_add_member'',
                           rpc_params = [JArr [JStr cn], JObj p],
                           rpc_id = requestId c + 1 \<rparr>] \<and>
             map_of p ''user'' = Some (JArr (map JStr us)) \<and>
             map_of p ''group'' = map_of opts ''group'' \<and>
             (''group'' \<in> fst ` set p \<longleftrightarrow> ''group'' \<in> fst ` set opts) \<and>
             (opts = [] \<longrightarrow> p = [(''user'', JArr (map JStr us))])"
proof -
  let ?p = "AList.update ''user'' (JArr (map JStr us)) opts"
  have sent: "map body (snd (snd (groupAddMember net c cn (Some us) None opts))) =
               [JsonBody \<lparr> rpc_method = ''group_add_member'',
                           rpc_params = [JArr [JStr cn], JObj ?p],
                           rpc_id = requestId c + 1 \<rparr>]"
    using assms
    by (simp add: groupAddMember_def apiCall_def Let_def api_request_def split: sum.splits)
  have user: "map_of ?p ''user'' = Some (JArr (map JStr us))"
    by (simp add: update_conv')
  have grp: "map_of ?p ''group'' = map_of opts ''group''"
    by (simp add: update_conv')
  have keys: "''group'' \<in> fst ` set ?p \<longleftrightarrow> ''group'' \<in> fst ` set opts"
    by (simp add: dom_update)
  have emp: "opts = [] \<longrightarrow> ?p = [(''user'', JArr (map JStr us))]"
    by simp
  show ?thesis
    by (rule exI [of _ ?p]) (use sent user grp keys emp in blast)
qed

theorem groupAddMember_named_options_witness:
  "map body (snd (snd (groupAddMember (always (Failure ''timeout'' None))
      ((new_client ''ipa.example.com'' ''admin'' ''secret'')\<lparr>authenticated := True\<rparr>)
      ''eng'' (Some [''alice'']) None []))) =
     [JsonBody \<lparr>rpc_method = ''group_add_member'',
                rpc_params = [JArr [JStr ''eng''], JObj [(''user'', JArr [JStr ''alice''])]],
                rpc_id = 1\<rparr>]"
  using groupAddMember_named_options
    [of "(new_client ''ipa.example.com'' ''admin'' ''secret'')\<lparr>authenticated := True\<rparr>"
        "always (Failure ''timeout'' None)" "''eng''" "[''alice'']" "[]"]
  by (auto simp: client_defs)

text \<open>
  The claim as first stated fails when the caller's extra options carry a \<open>group\<close> key:
  with the groups argument omitted, the mapping sent still has that key.
\<close>

theorem groupAddMember_group_key_counterexample:
  "map body (snd (snd (groupAddMember
      (always (Failure ''timeout'' None))
      ((new_client ''ipa.example.com'' ''admin'' ''secret'')\<lparr>authenticated := True\<rparr>)
      ''eng'' (Some [''alice'']) None [(''group'', JArr [JStr ''ops''])]))) =
     [JsonBody \<lparr> rpc_method = ''group_add_member'',
                 rpc_params = [JArr [JStr ''eng''],
                               JObj [(''group'', JArr [JStr ''ops'']),
                                     (''user'', JArr [JStr ''alice''])]],
                 rpc_id = 1 \<rparr>]"
  by (simp add: client_defs)

subsection \<open>What apiCall changes in the client\<close>

text \<open>
  Claim C10. Every invocation of \<open>apiCall\<close>, whatever it returns, leaves the cookie
  string and the authenticated flag as they were. On an authenticated client the client
  afterwards is the client before with the request id incremented by one and nothing
  else changed, also when the invocation fails; on a client that is not authenticated
  the client afterwards is the client before.
\<close>

theorem apiCall_frame:
  "cookies (fst (snd (apiCall net c method params opts))) = cookies c \<and>
   authenticated (fst (snd (apiCall net c method params opts))) = authenticated c \<and>
   (authenticated c \<longrightarrow>
      fst (snd (apiCall net c method params opts)) = c\<lparr>requestId := requestId c + 1\<rparr>) \<and>
   (\<not> authenticated c \<longrightarrow> fst (snd (apiCall net c method params opts)) = c)"
  by (auto simp: apiCall_def Let_def split: sum.splits)

theorem apiCall_frame_witness:
  "fst (snd (apiCall (always (Failure ''timeout'' None))
      ((new_client ''ipa.example.com'' ''admin'' ''secret'')
         \<lparr>authenticated := True, cookies := ''ipa_session=abc'', requestId := 7\<rparr>)
      ''ping'' [] [])) =
     (new_client ''ipa.example.com'' ''admin'' ''secret'')
       \<lparr>authenticated := True, cookies := ''ipa_session=abc'', requestId := 8\<rparr> \<and>
   fst (snd (apiCall (always (Failure ''timeout'' None))
      (new_client ''ipa.example.com'' ''admin'' ''secret'') ''ping'' [] [])) =
     new_client ''ipa.example.com'' ''admin'' ''secret''"
  using apiCall_frame
    [of "always (Failure ''timeout'' None)"
        "(new_client ''ipa.example.com'' ''admin'' ''secret'')
           \<lparr>authenticated := True, cookies := ''ipa_session=abc'', requestId := 7\<rparr>"
        "''ping''" "[]" "[]"]
    apiCall_frame
    [of "always (Failure ''timeout'' None)"
        "new_client ''ipa.example.com'' ''admin'' ''secret''"
        "''ping''" "[]" "[]"]
  by (simp add: client_defs)

section \<open>Properties of the SSH manager\<close>

subsection \<open>The batch over several hosts\<close>

lemma host_task_fulfils:
  "host_task mgr w command call =
     Fulfilled (\<lambda>results. results(snd call \<mapsto> host_entry mgr w command call))"
  by (cases call) (simp add: host_task_def host_entry_def split: settled.splits)

lemma promise_all_host_tasks:
  "promise_all (map (host_task mgr w command) calls) m0 =
     (Fulfilled (), fold (\<lambda>call m. m(snd call \<mapsto> host_entry mgr w command call)) calls m0)"
  by (induction calls arbitrary: m0) (simp_all add: host_task_fulfils)

lemma fold_entries_dom:
  "dom (fold (\<lambda>call m. m(snd call \<mapsto> f call)) calls m0) = dom m0 \<union> snd ` set calls"
  by (induction calls arbitrary: m0) auto

lemma fold_entries_other:
  "h \<notin> snd ` set calls \<Longrightarrow> fold (\<lambda>call m. m(snd call \<mapsto> f call)) calls m0 h = m0 h"
  by (induction calls arbitrary: m0) auto

lemma fold_entries_some_call:
  "h \<in> snd ` set calls \<Longrightarrow>
     \<exists>call\<in>set calls. snd call = h \<and>
        fold (\<lambda>call m. m(snd call \<mapsto> f call)) calls m0 h = Some (f call)"
proof (induction calls arbitrary: m0)
  case Nil
  then show ?case by simp
next
  case (Cons call rest)
  show ?case
  proof (cases "h \<in> snd ` set rest")
    case True
    then show ?thesis using Cons.IH [of "m0(snd call \<mapsto> f call)"] by auto
  next
    case False
    then have h: "snd call = h" using Cons.prems by auto
    have "fold (\<lambda>call m. m(snd call \<mapsto> f call)) rest (m0(snd call \<mapsto> f call)) h
            = (m0(snd call \<mapsto> f call)) h"
      using False by (rule fold_entries_other)
    moreover have "(m0(snd call \<mapsto> f call)) h = Some (f call)"
      using h by simp
    moreover have "fold (\<lambda>call m. m(snd call \<mapsto> f call)) (call # rest) m0 h
            = fold (\<lambda>call m. m(snd call \<mapsto> f call)) rest (m0(snd call \<mapsto> f call)) h"
      by (simp del: fun_upd_apply)
    ultimately have "fold (\<lambda>call m. m(snd call \<mapsto> f call)) (call # rest) m0 h = Some (f call)"
      by (simp only:)
    moreover have "call \<in> set (call # rest)" by simp
    ultimately show ?thesis using h by blast
  qed
qed

lemma set_settle_order:
  "set (settle_order mgr w command (enumerate 0 hosts)) = {(i, hosts ! i) | i. i < length hosts}"
  by (auto simp: settle_order_def in_set_enumerate_eq)

text \<open>
  Claim C1. For every list of hosts, every command, and every way in which the
  connections settle (each one fulfilled or rejected, in any order of time),
  \<open>executeOnMultipleHosts\<close> fulfils, with a mapping whose keys are exactly the requested
  hostnames. Every hostname maps to the outcome of a call made for it: the real result
  when that call fulfilled, and the record with empty standard output, the error's
  message as standard error and exit code -1 when it rejected. A hostname requested
  once maps to the outcome of its one call; a hostname listed several times has one
  entry, that of one of its calls.
\<close>

theorem executeOnMultipleHosts_isolates_failures:
  "\<exists>m. fst (executeOnMultipleHosts mgr w hosts command) = Fulfilled m \<and>
       dom m = set hosts \<and>
       (\<forall>h\<in>set hosts. \<exists>i<length hosts. hosts ! i = h \<and>
          (case fst (executeCommand mgr w i h command None) of
             Fulfilled r \<Rightarrow> m h = Some r
           | Rejected e \<Rightarrow>
               m h = Some \<lparr> stdout = [], stderr = ssh_message e, exitCode = - 1 \<rparr>)) \<and>
       (\<forall>i<length hosts. (\<forall>j<length hosts. hosts ! j = hosts ! i \<longrightarrow> j = i) \<longrightarrow>
          (case fst (executeCommand mgr w i (hosts ! i) command None) of
             Fulfilled r \<Rightarrow> m (hosts ! i) = Some r
           | Rejected e \<Rightarrow>
               m (hosts ! i) = Some \<lparr> stdout = [], stderr = ssh_message e, exitCode = - 1 \<rparr>))"
proof -
  let ?calls = "settle_order mgr w command (enumerate 0 hosts)"
  let ?m = "fold (\<lambda>call m. m(snd call \<mapsto> host_entry mgr w command call)) ?calls Map.empty"
  have calls: "set ?calls = {(i, hosts ! i) | i. i < length hosts}"
    by (rule set_settle_order)
  have hosts: "snd ` set ?calls = set hosts"
    unfolding calls by (force simp: in_set_conv_nth)
  have res: "fst (executeOnMultipleHosts mgr w hosts command) = Fulfilled ?m"
    by (simp add: executeOnMultipleHosts_def Let_def promise_all_host_tasks)
  have d: "dom ?m = set hosts"
    by (simp add: fold_entries_dom hosts)
  have entry: "(case fst (executeCommand mgr w i h command None) of
                  Fulfilled r \<Rightarrow> ?m h = Some r
                | Rejected e \<Rightarrow>
                    ?m h = Some \<lparr> stdout = [], stderr = ssh_message e, exitCode = - 1 \<rparr>)"
    if "?m h = Some (host_entry mgr w command (i, h))" for i h
    using that by (simp add: host_entry_def split: settled.splits)
  have some: "\<exists>i<length hosts. hosts ! i = h \<and> ?m h = Some (host_entry mgr w command (i, h))"
    if "h \<in> set hosts" for h
  proof -
    from that have "h \<in> snd ` set ?calls" by (simp add: hosts)
    then obtain call where c: "call \<in> set ?calls" "snd call = h"
        "?m h = Some (host_entry mgr w command call)"
      using fold_entries_some_call [of h ?calls "host_entry mgr w command" Map.empty] by blast
    from c(1) obtain i where "i < length hosts" "call = (i, hosts ! i)"
      unfolding calls by blast
    then show ?thesis using c by auto
  qed
  have a: "\<forall>h\<in>set hosts. \<exists>i<length hosts. hosts ! i = h \<and>
          (case fst (executeCommand mgr w i h command None) of
             Fulfilled r \<Rightarrow> ?m h = Some r
           | Rejected e \<Rightarrow>
               ?m h = Some \<lparr> stdout = [], stderr = ssh_message e, exitCode = - 1 \<rparr>)"
    using some entry by blast
  have b: "\<forall>i<length hosts. (\<forall>j<length hosts. hosts ! j = hosts ! i \<longrightarrow> j = i) \<longrightarrow>
          (case fst (executeCommand mgr w i (hosts ! i) command None) of
             Fulfilled r \<Rightarrow> ?m (hosts ! i) = Some r
           | Rejected e \<Rightarrow>
               ?m (hosts ! i) = Some \<lparr> stdout = [], stderr = ssh_message e, exitCode = - 1 \<rparr>)"
  proof (intro allI impI)
    fix i assume i: "i < length hosts"
      and u: "\<forall>j<length hosts. hosts ! j = hosts ! i \<longrightarrow> j = i"
    from i have "hosts ! i \<in> set hosts" by simp
    from some [OF this] obtain j where j: "j < length hosts" "hosts ! j = hosts ! i"
      "?m (hosts ! i) = Some (host_entry mgr w command (j, hosts ! i))" by blast
    with u have "j = i" by blast
    with j(3) show "(case fst (executeCommand mgr w i (hosts ! i) command None) of
             Fulfilled r \<Rightarrow> ?m (hosts ! i) = Some r
           | Rejected e \<Rightarrow>
               ?m (hosts ! i) = Some \<lparr> stdout = [], stderr = ssh_message e, exitCode = - 1 \<rparr>)"
      using entry by blast
  qed
  show ?thesis
    by (rule exI [of _ ?m]) (use res d a b in blast)
qed

theorem executeOnMultipleHosts_isolates_failures_witness:
  "\<exists>m. fst (executeOnMultipleHosts
        \<lparr>ssh_username = ''ops'', ssh_password = ''secret'', defaultPort = 22,
          defaultTimeout = 10000, sssdDomain = ''example.com''\<rparr>
        (\<lambda>i conn. if conn_host conn = ''h1''
                   then \<lparr>settle_at = 2, events = StreamClosed [''up 3 days''] [] 0\<rparr>
                   else \<lparr>settle_at = 1, events = ConnectionError ''refused''\<rparr>)
        [''h1'', ''h2''] ''uptime'') = Fulfilled m \<and>
      dom m = {''h1'', ''h2''} \<and>
      m ''h1'' = Some \<lparr>stdout = ''up 3 days'', stderr = [], exitCode = 0\<rparr> \<and>
      m ''h2'' = Some \<lparr>stdout = [], stderr = ''SSH connection failed: refused'',
                        exitCode = - 1\<rparr>"
proof -
  let ?mgr = "\<lparr>ssh_username = ''ops'', ssh_password = ''secret'', defaultPort = 22,
          defaultTimeout = 10000, sssdDomain = ''example.com''\<rparr>"
  let ?w = "\<lambda>i conn. if conn_host conn = ''h1''
                   then \<lparr>settle_at = 2, events = StreamClosed [''up 3 days''] [] 0\<rparr>
                   else \<lparr>settle_at = (1::nat), events = ConnectionError ''refused''\<rparr>"
  from executeOnMultipleHosts_isolates_failures [of ?mgr ?w "[''h1'', ''h2'']" "''uptime''"]
  obtain m where m: "fst (executeOnMultipleHosts ?mgr ?w [''h1'', ''h2''] ''uptime'') = Fulfilled m"
    "dom m = set [''h1'', ''h2'']"
    "\<forall>i<length [''h1'', ''h2''].
       (\<forall>j<length [''h1'', ''h2'']. [''h1'', ''h2''] ! j = [''h1'', ''h2''] ! i \<longrightarrow> j = i) \<longrightarrow>
          (case fst (executeCommand ?mgr ?w i ([''h1'', ''h2''] ! i) ''uptime'' None) of
             Fulfilled r \<Rightarrow> m ([''h1'', ''h2''] ! i) = Some r
           | Rejected e \<Rightarrow>
               m ([''h1'', ''h2''] ! i) =
                 Some \<lparr> stdout = [], stderr = ssh_message e, exitCode = - 1 \<rparr>)"
    by blast
  have u0: "\<forall>j<length [''h1'', ''h2'']. [''h1'', ''h2''] ! j = [''h1'', ''h2''] ! 0 \<longrightarrow> j = 0"
    by (simp add: less_Suc_eq nth_Cons')
  have u1: "\<forall>j<length [''h1'', ''h2'']. [''h1'', ''h2''] ! j = [''h1'', ''h2''] ! 1 \<longrightarrow> j = 1"
    by (simp add: less_Suc_eq nth_Cons')
  have e0: "m ''h1'' = Some \<lparr>stdout = ''up 3 days'', stderr = [], exitCode = 0\<rparr>"
    using m(3) [THEN spec, of 0] u0
    by (simp add: executeCommand_def open_connection_def trim_def is_space_def)
  have e1: "m ''h2'' = Some \<lparr>stdout = [], stderr = ''SSH connection failed: refused'',
                              exitCode = - 1\<rparr>"
    using m(3) [THEN spec, of 1] u1
    by (simp add: executeCommand_def open_connection_def)
  show ?thesis
    by (rule exI [of _ m]) (use m(1,2) e0 e1 in auto)
qed

subsection \<open>Validation of the timeouts\<close>

lemma valid_timeout_iff:
  "(Number_isInteger x \<and> \<not> less_than_zero x) \<longleftrightarrow> (\<exists>n::nat. x = Num (of_nat n))"
proof (cases x)
  case (Num r)
  show ?thesis
  proof
    assume "Number_isInteger x \<and> \<not> less_than_zero x"
    then have r: "of_int \<lfloor>r\<rfloor> = r" "0 \<le> r" using Num by auto
    then have "0 \<le> \<lfloor>r\<rfloor>" by simp
    then have "r = of_nat (nat \<lfloor>r\<rfloor>)" using r(1) by (metis of_nat_nat)
    then show "\<exists>n::nat. x = Num (of_nat n)" using Num by blast
  next
    assume "\<exists>n::nat. x = Num (of_nat n)"
    then show "Number_isInteger x \<and> \<not> less_than_zero x" by auto
  qed
qed auto

lemma validate_timeouts_rejects:
  assumes "(\<exists>e. entryCacheTimeout = Some e \<and> (\<forall>n::nat. e \<noteq> Num (of_nat n))) \<or>
           (\<exists>s. sudoTimeout = Some s \<and> (\<forall>n::nat. s \<noteq> Num (of_nat n)))"
  shows "\<exists>err. validate_timeouts entryCacheTimeout sudoTimeout = Inl err \<and>
           ssh_message err \<in> {''entryCacheTimeout must be a non-negative integer'',
                               ''sudoTimeout must be a non-negative integer''}"
proof -
  have "(\<exists>e. entryCacheTimeout = Some e \<and> \<not> (Number_isInteger e \<and> \<not> less_than_zero e)) \<or>
        (\<exists>s. sudoTimeout = Some s \<and> \<not> (Number_isInteger s \<and> \<not> less_than_zero s))"
    using assms unfolding valid_timeout_iff by blast
  then show ?thesis
    by (cases entryCacheTimeout; cases sudoTimeout)
       (auto simp: validate_timeouts_def Let_def)
qed

text \<open>
  Claim C7. When the entry-cache timeout or the sudo timeout is supplied and is not a
  non-negative integer (a negative number, a number with a fractional part, NaN or an
  infinity), \<open>updateSSSDTimeout\<close> and \<open>updateSSSDTimeoutMultiple\<close> both reject with the
  same validation error, whatever the other arguments, and no connection is opened: the
  two checks stand before the first connection of either function. Both are \<open>async\<close>
  functions, so the error thrown by the check is the rejection of the promise they
  return.
\<close>

theorem updateSSSDTimeout_rejects_invalid:
  assumes "(\<exists>e. entryCacheTimeout = Some e \<and> (\<forall>n::nat. e \<noteq> Num (of_nat n))) \<or>
           (\<exists>s. sudoTimeout = Some s \<and> (\<forall>n::nat. s \<noteq> Num (of_nat n)))"
  shows "\<exists>err. ssh_message err \<in> {''entryCacheTimeout must be a non-negative integer'',
                                   ''sudoTimeout must be a non-negative integer''} \<and>
           updateSSSDTimeout to_text mgr w host entryCacheTimeout sudoTimeout
             = (Rejected err, []) \<and>
           updateSSSDTimeoutMultiple to_text mgr w hosts entryCacheTimeout sudoTimeout
             = (Rejected err, [])"
proof -
  from validate_timeouts_rejects [OF assms]
  obtain err where "validate_timeouts entryCacheTimeout sudoTimeout = Inl err"
    and "ssh_message err \<in> {''entryCacheTimeout must be a non-negative integer'',
                             ''sudoTimeout must be a non-negative integer''}"
    by blast
  then show ?thesis
    by (intro exI [of _ err]) (simp add: updateSSSDTimeout_def updateSSSDTimeoutMultiple_def)
qed

theorem updateSSSDTimeout_rejects_invalid_witness:
  "updateSSSDTimeout (\<lambda>x. ''300'')
      \<lparr>ssh_username = ''ops'', ssh_password = ''secret'', defaultPort = 22,
        defaultTimeout = 10000, sssdDomain = ''example.com''\<rparr>
      (\<lambda>i conn. \<lparr>settle_at = i, events = StreamClosed [] [] 0\<rparr>)
      ''h1'' (Some (Num (- 1))) None =
     (Rejected \<lparr>ssh_message = ''entryCacheTimeout must be a non-negative integer'',
                ssh_host = None, ssh_exitCode = None\<rparr>, []) \<and>
   updateSSSDTimeoutMultiple (\<lambda>x. ''300'')
      \<lparr>ssh_username = ''ops'', ssh_password = ''secret'', defaultPort = 22,
        defaultTimeout = 10000, sssdDomain = ''example.com''\<rparr>
      (\<lambda>i conn. \<lparr>settle_at = i, events = StreamClosed [] [] 0\<rparr>)
      [''h1'', ''h2''] (Some (Num (- 1))) None =
     (Rejected \<lparr>ssh_message = ''entryCacheTimeout must be a non-negative integer'',
                ssh_host = None, ssh_exitCode = None\<rparr>, [])"
proof -
  have "\<forall>n::nat. Num (- 1) \<noteq> Num (of_nat n)"
    by (simp add: order.strict_implies_not_eq del: of_nat_eq_iff)
  then have h: "(\<exists>e. Some (Num (- 1)) = Some e \<and> (\<forall>n::nat. e \<noteq> Num (of_nat n))) \<or>
                (\<exists>s. (None :: number option) = Some s \<and> (\<forall>n::nat. s \<noteq> Num (of_nat n)))"
    by blast
  show ?thesis
    using updateSSSDTimeout_rejects_invalid
      [OF h, of "\<lambda>x. ''300''"
        "\<lparr>ssh_username = ''ops'', ssh_password = ''secret'', defaultPort = 22,
          defaultTimeout = 10000, sssdDomain = ''example.com''\<rparr>"
        "\<lambda>i conn. \<lparr>settle_at = i, events = StreamClosed [] [] 0\<rparr>" "''h1''" "[''h1'', ''h2'']"]
    by (simp add: updateSSSDTimeout_def updateSSSDTimeoutMultiple_def validate_timeouts_def)
qed

subsection \<open>Validation of identifiers\<close>

lemma lower_case_chars: "map char_of [97..<123::nat] = ''abcdefghijklmnopqrstuvwxyz''"
  by code_simp

lemma upper_case_chars: "map char_of [65..<91::nat] = ''ABCDEFGHIJKLMNOPQRSTUVWXYZ''"
  by code_simp

lemma digit_chars: "map char_of [48..<58::nat] = ''0123456789''"
  by code_simp

lemma char_in_range:
  assumes "lo \<le> (of_char c :: nat)" "(of_char c :: nat) < hi"
  shows "c \<in> set (map char_of [lo..<hi])"
proof -
  have "(of_char c :: nat) \<in> set [lo..<hi]" using assms by simp
  then have "char_of (of_char c :: nat) \<in> char_of ` set [lo..<hi]" by (rule imageI)
  then show ?thesis by simp
qed

lemma in_class_iff: "in_class c \<longleftrightarrow> c \<in> identifier_chars"
proof
  assume "c \<in> identifier_chars"
  then show "in_class c"
    unfolding identifier_chars_def in_class_def by auto
next
  assume a: "in_class c"
  let ?n = "of_char c :: nat"
  from a consider "97 \<le> ?n \<and> ?n < 123" | "65 \<le> ?n \<and> ?n < 91" | "48 \<le> ?n \<and> ?n < 58"
    | "c = CHR ''.'' \<or> c = CHR ''_'' \<or> c = CHR ''@'' \<or> c = CHR ''-''"
    unfolding in_class_def Let_def by fastforce
  then show "c \<in> identifier_chars"
  proof cases
    case 1
    then have "c \<in> set (map char_of [97..<123::nat])" by (simp only: char_in_range)
    then show ?thesis unfolding identifier_chars_def lower_case_chars by blast
  next
    case 2
    then have "c \<in> set (map char_of [65..<91::nat])" by (simp only: char_in_range)
    then show ?thesis unfolding identifier_chars_def upper_case_chars by blast
  next
    case 3
    then have "c \<in> set (map char_of [48..<58::nat])" by (simp only: char_in_range)
    then show ?thesis unfolding identifier_chars_def digit_chars by blast
  next
    case 4
    then show ?thesis unfolding identifier_chars_def by auto
  qed
qed

lemma regex_test_iff: "regex_test v \<longleftrightarrow> v \<noteq> [] \<and> set v \<subseteq> identifier_chars"
  by (auto simp: regex_test_def list_all_iff in_class_iff)

text \<open>
  Claim C8. \<open>validateShellSafe\<close> returns its argument exactly for the non-empty strings
  made only of the letters a to z and A to Z, the digits, dot, hyphen, underscore and
  at-sign, and throws for every other string. When it throws, \<open>invalidateUser\<close> and
  \<open>invalidateGroup\<close> reject with that error and open no connection, so the identifier
  never reaches a command; when it accepts, the one connection opened runs the
  \<open>sss_cache\<close> command with the identifier appended. A string is a list of code units
  below 256 here; the pattern admits no code unit above that.
\<close>

theorem validateShellSafe_allow_list:
  "(validateShellSafe v label = Inr v \<longleftrightarrow> v \<noteq> [] \<and> set v \<subseteq> identifier_chars) \<and>
   (\<not> (v \<noteq> [] \<and> set v \<subseteq> identifier_chars) \<longrightarrow>
      (\<exists>e. validateShellSafe v label = Inl e) \<and>
      (\<exists>e. invalidateUser mgr w host v = (Rejected e, [])) \<and>
      (\<exists>e. invalidateGroup mgr w host v = (Rejected e, []))) \<and>
   (v \<noteq> [] \<and> set v \<subseteq> identifier_chars \<longrightarrow>
      snd (invalidateUser mgr w host v) =
        [open_connection mgr host (''sudo sss_cache -u '' @ v) None] \<and>
      snd (invalidateGroup mgr w host v) =
        [open_connection mgr host (''sudo sss_cache -g '' @ v) None])"
  unfolding invalidateUser_def invalidateGroup_def validateShellSafe_def regex_test_iff
  by (auto simp: executeCommand_def Let_def)

theorem validateShellSafe_allow_list_witness:
  "validateShellSafe ''alice.smith@EXAMPLE.COM'' ''username'' = Inr ''alice.smith@EXAMPLE.COM'' \<and>
   validateShellSafe ''alice; rm -rf /'' ''username'' \<noteq> Inr ''alice; rm -rf /''"
  using validateShellSafe_allow_list [of "''alice.smith@EXAMPLE.COM''" "''username''"]
        validateShellSafe_allow_list [of "''alice; rm -rf /''" "''username''"]
  by (simp add: identifier_chars_def)

end
